theory Spec2Isabelle
  imports Main
begin

section \<open>Strings and numbers of the host language\<close>

text \<open>
  A string is a list of characters, each a code point below 256 (ASCII and Latin-1).
  On these code points the built-ins the dashboard uses are as follows.

  \<^item> The regular-expression class \<^verbatim>\<open>\s\<close> and \<^verbatim>\<open>String.prototype.trim\<close> agree
    on what white space is: tab, line feed, vertical tab, form feed, carriage return,
    space and the no-break space.
  \<^item> \<^verbatim>\<open>s.replace(/\s+/g, '')\<close> deletes every white-space character.
  \<^item> \<^verbatim>\<open>s.toLowerCase()\<close> maps A-Z and the Latin-1 capitals (all of 192-222 but the
    multiplication sign 215) to the letter 32 code points higher.
  \<^item> A template literal prints a non-negative integer in decimal.
\<close>

definition isSpace :: "char \<Rightarrow> bool" where
  "isSpace c = ((of_char c :: nat) \<in> {9, 10, 11, 12, 13, 32, 160})"

definition trim :: "string \<Rightarrow> string" where
  "trim s = rev (dropWhile isSpace (rev (dropWhile isSpace s)))"

definition stripSpace :: "string \<Rightarrow> string" where
  "stripSpace s = filter (\<lambda>c. \<not> isSpace c) s"

definition lowerChar :: "char \<Rightarrow> char" where
  "lowerChar c =
     (let n = (of_char c :: nat)
      in if (65 \<le> n \<and> n \<le> 90) \<or> (192 \<le> n \<and> n \<le> 222 \<and> n \<noteq> 215)
         then char_of (n + 32) else c)"

definition toLowerCase :: "string \<Rightarrow> string" where
  "toLowerCase s = map lowerChar s"

definition digitChar :: "nat \<Rightarrow> char" where
  "digitChar d = char_of (48 + d)"

fun showNat :: "nat \<Rightarrow> string" where
  "showNat n = (if n < 10 then [digitChar n] else showNat (n div 10) @ [digitChar (n mod 10)])"

declare showNat.simps [simp del]

section \<open>The topology model\<close>

text \<open>
  The declarations of \<^verbatim>\<open>types.ts\<close> are read off the object literals and field
  accesses of \<^verbatim>\<open>NetworkDashboard.tsx\<close>. Field names that several interfaces share
  carry the interface as a prefix, and the field \<^verbatim>\<open>fix\<close> of a validation result
  is \<open>fixHint\<close>. Ports and counts are natural numbers, byte sizes integers. The
  lifecycle status \<^verbatim>\<open>error\<close> of a peer or orderer is \<open>Failed\<close>; the severities of
  a validation result are \<open>Error\<close>, \<open>Warning\<close> and \<open>Info\<close>.
\<close>

datatype PeerStatus = Pending | Running | Stopped | Failed

record Peer =
  peer_id :: string
  peer_name :: string
  peer_port :: nat
  peer_status :: PeerStatus
  couchDBPort :: nat
  chaincodePort :: nat

datatype OrgType = PeerOrg | OrdererOrg

record Organization =
  org_id :: string
  org_name :: string
  org_domain :: string
  mspID :: string
  peers :: "Peer list"
  org_type :: "OrgType option"
  country :: string
  state :: string
  locality :: string

datatype OrdererType = Solo | Etcdraft

record BatchSize =
  maxMessageCount :: int
  absoluteMaxBytes :: int
  preferredMaxBytes :: int

record Orderer =
  ord_id :: string
  ord_name :: string
  ord_domain :: string
  ord_port :: nat
  ord_status :: PeerStatus
  ord_type :: OrdererType
  batchTimeout :: string
  batchSize :: BatchSize

datatype StateDatabase = CouchDB | LevelDB

record TemplateOrg =
  torg_name :: string
  peerCount :: nat
  torg_type :: OrgType

record NetworkTemplate =
  tpl_id :: string
  tpl_name :: string
  description :: string
  tpl_channelName :: string
  tpl_organizations :: "TemplateOrg list"
  ordererCount :: nat
  tpl_stateDatabase :: StateDatabase

record NetworkConfig =
  organizations :: "Organization list"
  orderers :: "Orderer list"
  channelName :: string
  consortium :: string
  networkVersion :: string
  template :: "NetworkTemplate option"
  stateDatabase :: StateDatabase

record YAMLConfig =
  configtx :: string
  cryptoConfig :: string
  dockerCompose :: string

datatype Severity = Error | Warning | Info

record ValidationResult =
  status :: Severity
  message :: string
  fixHint :: "string option"

section \<open>The dashboard state\<close>

text \<open>
  \<^verbatim>\<open>NetworkDashboard\<close> keeps its state in React hooks; every handler below takes the
  state and returns the state after its \<^verbatim>\<open>set...\<close> calls. The timer that clears the
  notification after three seconds is not part of the model. \<^verbatim>\<open>showNotification\<close>
  is declared for the types success and error; \<^verbatim>\<open>checkConfiguration\<close> also passes
  it the type warning.
\<close>

datatype NotificationType = NotifySuccess | NotifyError | NotifyWarning

record Dashboard =
  config :: NetworkConfig
  editingOrg :: "string option"
  editingPeer :: "(string \<times> string) option"
  editingOrderer :: "string option"
  newOrgName :: string
  yamlPreview :: "YAMLConfig option"
  notification :: "(string \<times> NotificationType) option"
  selectedTemplate :: "NetworkTemplate option"
  validationResults :: "ValidationResult list"
  showValidation :: bool

definition initialConfig :: NetworkConfig where
  "initialConfig =
     \<lparr>organizations = [], orderers = [], channelName = '''',
      consortium = ''SampleConsortium'', networkVersion = ''2.0'',
      template = None, stateDatabase = CouchDB\<rparr>"

definition initialDashboard :: Dashboard where
  "initialDashboard =
     \<lparr>config = initialConfig, editingOrg = None, editingPeer = None,
      editingOrderer = None, newOrgName = '''', yamlPreview = None,
      notification = None, selectedTemplate = None, validationResults = [],
      showValidation = False\<rparr>"

definition showNotification :: "string \<Rightarrow> NotificationType \<Rightarrow> Dashboard \<Rightarrow> Dashboard" where
  "showNotification msg ty s = s\<lparr>notification := Some (msg, ty)\<rparr>"

section \<open>Presets\<close>

text \<open>
  \<^verbatim>\<open>crypto.randomUUID()\<close> is an oracle \<open>uuid\<close>: each call made while a preset is
  instantiated has a slot of its own (the organization's position, the peer's position
  in its organization, the orderer's position), and the oracle gives the identity minted
  there. \<^verbatim>\<open>Array.from({ length: n }, (_, i) => f(i))\<close> is \<open>map f [0..<n]\<close>.
\<close>

datatype IdSlot = OrgSlot nat | PeerSlot nat nat | OrdererSlot nat

definition newOrgs :: "(IdSlot \<Rightarrow> string) \<Rightarrow> NetworkTemplate \<Rightarrow> Organization list" where
  "newOrgs uuid t =
     map (\<lambda>(k, org).
       \<lparr>org_id = uuid (OrgSlot k),
        org_name = torg_name org,
        org_domain = stripSpace (toLowerCase (torg_name org)) @ ''.example.com'',
        mspID = stripSpace (torg_name org) @ ''MSP'',
        peers = map (\<lambda>i.
          \<lparr>peer_id = uuid (PeerSlot k i),
           peer_name = ''peer'' @ showNat i,
           peer_port = 7051 + i,
           peer_status = Pending,
           couchDBPort = 5984 + i,
           chaincodePort = 7052 + i\<rparr>) [0..<peerCount org],
        org_type = Some (torg_type org),
        country = ''US'',
        state = ''California'',
        locality = ''San Francisco''\<rparr>)
       (enumerate 0 (tpl_organizations t))"

definition newOrderers :: "(IdSlot \<Rightarrow> string) \<Rightarrow> NetworkTemplate \<Rightarrow> Orderer list" where
  "newOrderers uuid t =
     map (\<lambda>i.
       \<lparr>ord_id = uuid (OrdererSlot i),
        ord_name = ''orderer'' @ showNat i,
        ord_domain = ''orderer.example.com'',
        ord_port = 7050 + i,
        ord_status = Pending,
        ord_type = Etcdraft,
        batchTimeout = ''2s'',
        batchSize = \<lparr>maxMessageCount = 500, absoluteMaxBytes = 10485760,
                     preferredMaxBytes = 2097152\<rparr>\<rparr>) [0..<ordererCount t]"

definition applyTemplate :: "(IdSlot \<Rightarrow> string) \<Rightarrow> NetworkTemplate \<Rightarrow> Dashboard \<Rightarrow> Dashboard" where
  "applyTemplate uuid t s =
     showNotification (''Applied '' @ tpl_name t @ '' template successfully'') NotifySuccess
       (s\<lparr>selectedTemplate := Some t,
          config :=
            \<lparr>organizations = newOrgs uuid t,
             orderers = newOrderers uuid t,
             channelName = tpl_channelName t,
             consortium = ''SampleConsortium'',
             networkVersion = ''2.0'',
             template = Some t,
             stateDatabase = tpl_stateDatabase t\<rparr>\<rparr>)"

section \<open>Editing the topology\<close>

text \<open>
  A handler that mints one identity takes it as the argument \<open>newId\<close>.
\<close>

definition addOrganization :: "string \<Rightarrow> Dashboard \<Rightarrow> Dashboard" where
  "addOrganization newId s =
     (if trim (newOrgName s) = []
      then showNotification ''Organization name is required'' NotifyError s
      else
        let newOrg =
          \<lparr>org_id = newId,
           org_name = trim (newOrgName s),
           org_domain = stripSpace (toLowerCase (newOrgName s)) @ ''.example.com'',
           mspID = stripSpace (newOrgName s) @ ''MSP'',
           peers = [],
           org_type = None,
           country = ''US'',
           state = ''California'',
           locality = ''San Francisco''\<rparr>
        in showNotification (''Organization '' @ org_name newOrg @ '' added successfully'')
             NotifySuccess
             (s\<lparr>config := (config s)\<lparr>organizations := organizations (config s) @ [newOrg]\<rparr>,
                newOrgName := []\<rparr>))"

text \<open>
  \<^verbatim>\<open>Partial<Organization>\<close>: every field may be absent. The spread
  \<^verbatim>\<open>{ ...org, ...updates }\<close> takes a field from \<open>updates\<close> where it is present and
  from \<open>org\<close> otherwise.
\<close>

record OrganizationUpdates =
  upd_id :: "string option"
  upd_name :: "string option"
  upd_domain :: "string option"
  upd_mspID :: "string option"
  upd_peers :: "Peer list option"
  upd_type :: "OrgType option"
  upd_country :: "string option"
  upd_state :: "string option"
  upd_locality :: "string option"

definition spread :: "Organization \<Rightarrow> OrganizationUpdates \<Rightarrow> Organization" where
  "spread org updates =
     \<lparr>org_id = (case upd_id updates of None \<Rightarrow> org_id org | Some v \<Rightarrow> v),
      org_name = (case upd_name updates of None \<Rightarrow> org_name org | Some v \<Rightarrow> v),
      org_domain = (case upd_domain updates of None \<Rightarrow> org_domain org | Some v \<Rightarrow> v),
      mspID = (case upd_mspID updates of None \<Rightarrow> mspID org | Some v \<Rightarrow> v),
      peers = (case upd_peers updates of None \<Rightarrow> peers org | Some v \<Rightarrow> v),
      org_type = (case upd_type updates of None \<Rightarrow> org_type org | Some v \<Rightarrow> Some v),
      country = (case upd_country updates of None \<Rightarrow> country org | Some v \<Rightarrow> v),
      state = (case upd_state updates of None \<Rightarrow> state org | Some v \<Rightarrow> v),
      locality = (case upd_locality updates of None \<Rightarrow> locality org | Some v \<Rightarrow> v)\<rparr>"

definition updateOrganization :: "string \<Rightarrow> OrganizationUpdates \<Rightarrow> Dashboard \<Rightarrow> Dashboard" where
  "updateOrganization orgId updates s =
     showNotification ''Organization updated successfully'' NotifySuccess
       (s\<lparr>config := (config s)\<lparr>organizations :=
            map (\<lambda>org. if org_id org = orgId then spread org updates else org)
              (organizations (config s))\<rparr>\<rparr>)"

definition addPeer :: "string \<Rightarrow> string \<Rightarrow> Dashboard \<Rightarrow> Dashboard" where
  "addPeer newId orgId s =
     (case find (\<lambda>o'. org_id o' = orgId) (organizations (config s)) of
        None \<Rightarrow> s
      | Some org \<Rightarrow>
          let newPeer =
            \<lparr>peer_id = newId,
             peer_name = ''peer'' @ showNat (length (peers org)),
             peer_port = 7051 + length (peers org),
             peer_status = Pending,
             couchDBPort = 5984 + length (peers org),
             chaincodePort = 7052 + length (peers org)\<rparr>
          in showNotification (''Peer '' @ peer_name newPeer @ '' added to '' @ org_name org)
               NotifySuccess
               (s\<lparr>config := (config s)\<lparr>organizations :=
                    map (\<lambda>o'. if org_id o' = orgId then o'\<lparr>peers := peers o' @ [newPeer]\<rparr> else o')
                      (organizations (config s))\<rparr>\<rparr>))"

section \<open>Checking and generating\<close>

text \<open>
  \<^verbatim>\<open>validateNetworkConfig\<close> (utils/networkValidator) and \<^verbatim>\<open>generateYAMLConfigs\<close>
  (utils/yamlGenerator) are imported by the dashboard; the two handlers take them as
  arguments, with the types of their use.
\<close>

definition checkConfiguration ::
  "(NetworkConfig \<Rightarrow> ValidationResult list) \<Rightarrow> Dashboard \<Rightarrow> Dashboard" where
  "checkConfiguration validateNetworkConfig s =
     (let results = validateNetworkConfig (config s);
          s' = s\<lparr>validationResults := results, showValidation := True\<rparr>;
          hasErrors = list_ex (\<lambda>result. status result = Error) results
      in if hasErrors
         then showNotification ''Configuration has critical issues that need to be addressed''
                NotifyError s'
         else if length results > 0
         then showNotification ''Configuration has warnings that should be reviewed''
                NotifyWarning s'
         else showNotification ''Configuration looks good!'' NotifySuccess s')"

definition generateConfigs :: "(NetworkConfig \<Rightarrow> YAMLConfig) \<Rightarrow> Dashboard \<Rightarrow> Dashboard" where
  "generateConfigs generateYAMLConfigs s =
     (if length (organizations (config s)) = 0
      then showNotification ''Add at least one organization before generating configs''
             NotifyError s
      else
        let configs = generateYAMLConfigs (config s)
        in showNotification ''Configuration files generated successfully'' NotifySuccess
             (s\<lparr>yamlPreview := Some configs\<rparr>))"

section \<open>What the specification asks of a topology\<close>

text \<open>
  The port-uniqueness rule: the peer port, state-database port and chaincode port of
  every peer and the port of every orderer share one namespace and are pairwise
  distinct.
\<close>

definition peerPorts :: "Peer \<Rightarrow> nat list" where
  "peerPorts p = [peer_port p, couchDBPort p, chaincodePort p]"

definition allPorts :: "NetworkConfig \<Rightarrow> nat list" where
  "allPorts cfg =
     concat (map (\<lambda>org. concat (map peerPorts (peers org))) (organizations cfg))
     @ map ord_port (orderers cfg)"

definition portsUnique :: "NetworkConfig \<Rightarrow> bool" where
  "portsUnique cfg = distinct (allPorts cfg)"

text \<open>The identities of a topology: of its organizations, their peers and its orderers.\<close>

definition identities :: "NetworkConfig \<Rightarrow> string list" where
  "identities cfg =
     map org_id (organizations cfg)
     @ concat (map (\<lambda>org. map peer_id (peers org)) (organizations cfg))
     @ map ord_id (orderers cfg)"

text \<open>A topology with every identity blanked: what is left does not depend on the minting.\<close>

definition forgetIds :: "NetworkConfig \<Rightarrow> NetworkConfig" where
  "forgetIds cfg =
     cfg\<lparr>organizations :=
           map (\<lambda>org. org\<lparr>org_id := [], peers := map (\<lambda>p. p\<lparr>peer_id := []\<rparr>) (peers org)\<rparr>)
             (organizations cfg),
         orderers := map (\<lambda>od. od\<lparr>ord_id := []\<rparr>) (orderers cfg)\<rparr>"

text \<open>
  The structural blocker as \<^verbatim>\<open>generateConfigs\<close> reports it: the error notification of
  its guard, and the stored documents left as they were.
\<close>

definition malformedTopology :: "Dashboard \<Rightarrow> Dashboard \<Rightarrow> bool" where
  "malformedTopology s s' =
     (notification s' =
        Some (''Add at least one organization before generating configs'', NotifyError)
      \<and> yamlPreview s' = yamlPreview s)"

text \<open>
  The membership-service-provider identifier the specification describes: the name
  restricted to letters and digits, then \<^verbatim>\<open>MSP\<close>.
\<close>

definition isAlphanumeric :: "char \<Rightarrow> bool" where
  "isAlphanumeric c =
     (let n = (of_char c :: nat)
      in (48 \<le> n \<and> n \<le> 57) \<or> (65 \<le> n \<and> n \<le> 90) \<or> (97 \<le> n \<and> n \<le> 122))"

definition alphanumericMSP :: "string \<Rightarrow> string" where
  "alphanumericMSP name = filter isAlphanumeric name @ ''MSP''"

section \<open>The validator of the specification\<close>

text \<open>
  Modelled from the spec: \<^verbatim>\<open>validateNetworkConfig\<close> (utils/networkValidator) is not
  among the sources. The definitions below follow section 4.1 of the specification: five
  rule classes, each evaluated whatever the others found, reported in rule order. A
  finding names its rule and the entities it is about; the message and fix texts, which
  the specification gives only for some rules, are left out. Where the specification does
  not say how findings are counted, one finding is reported for each colliding pair, in
  the order of the topology; a consensus rule applies when some orderer runs in the mode
  the rule is about.
\<close>

datatype PortKind = PeerListen | StateDb | Chaincode | OrdererListen

datatype Finding =
    NoOrganizations
  | NoOrderers
  | NoPeers string
  | DuplicateMspID string string
  | DuplicatePort "string \<times> PortKind" "string \<times> PortKind" nat
  | EvenRaftCount nat
  | SoloWithSeveral
  | PreferredExceedsAbsolute string
  | NonPositiveMessageCount string
  | BadChannelName
  | BadConsortiumName

fun severity :: "Finding \<Rightarrow> Severity" where
  "severity NoOrganizations = Error"
| "severity NoOrderers = Error"
| "severity (NoPeers _) = Warning"
| "severity (DuplicateMspID _ _) = Error"
| "severity (DuplicatePort _ _ _) = Error"
| "severity (EvenRaftCount _) = Warning"
| "severity SoloWithSeveral = Warning"
| "severity (PreferredExceedsAbsolute _) = Error"
| "severity (NonPositiveMessageCount _) = Error"
| "severity BadChannelName = Warning"
| "severity BadConsortiumName = Warning"

fun isDuplicatePort :: "Finding \<Rightarrow> bool" where
  "isDuplicatePort (DuplicatePort _ _ _) = True"
| "isDuplicatePort _ = False"

fun pairs :: "'a list \<Rightarrow> ('a \<times> 'a) list" where
  "pairs [] = []"
| "pairs (x # xs) = map (Pair x) xs @ pairs xs"

definition portBindings :: "NetworkConfig \<Rightarrow> ((string \<times> PortKind) \<times> nat) list" where
  "portBindings cfg =
     concat (map (\<lambda>org. concat (map (\<lambda>p.
         [((peer_id p, PeerListen), peer_port p),
          ((peer_id p, StateDb), couchDBPort p),
          ((peer_id p, Chaincode), chaincodePort p)]) (peers org))) (organizations cfg))
     @ map (\<lambda>od. ((ord_id od, OrdererListen), ord_port od)) (orderers cfg)"

definition emptinessRule :: "NetworkConfig \<Rightarrow> Finding list" where
  "emptinessRule cfg =
     (if organizations cfg = [] then [NoOrganizations] else [])
     @ (if orderers cfg = [] then [NoOrderers] else [])
     @ map (\<lambda>org. NoPeers (org_id org)) (filter (\<lambda>org. peers org = []) (organizations cfg))"

definition uniquenessRule :: "NetworkConfig \<Rightarrow> Finding list" where
  "uniquenessRule cfg =
     map (\<lambda>(a, b). DuplicateMspID (org_id a) (org_id b))
       (filter (\<lambda>(a, b). mspID a = mspID b) (pairs (organizations cfg)))
     @ map (\<lambda>((e1, p1), (e2, p2)). DuplicatePort e1 e2 p1)
       (filter (\<lambda>((e1, p1), (e2, p2)). p1 = p2) (pairs (portBindings cfg)))"

definition consensusRule :: "NetworkConfig \<Rightarrow> Finding list" where
  "consensusRule cfg =
     (if list_ex (\<lambda>od. ord_type od = Etcdraft) (orderers cfg) \<and> even (length (orderers cfg))
      then [EvenRaftCount (length (orderers cfg))] else [])
     @ (if list_ex (\<lambda>od. ord_type od = Solo) (orderers cfg) \<and> length (orderers cfg) > 1
        then [SoloWithSeveral] else [])"

definition batchSizeRule :: "NetworkConfig \<Rightarrow> Finding list" where
  "batchSizeRule cfg =
     concat (map (\<lambda>od.
         (if preferredMaxBytes (batchSize od) > absoluteMaxBytes (batchSize od)
          then [PreferredExceedsAbsolute (ord_id od)] else [])
         @ (if maxMessageCount (batchSize od) \<le> 0
            then [NonPositiveMessageCount (ord_id od)] else [])) (orderers cfg))"

definition isLabelChar :: "char \<Rightarrow> bool" where
  "isLabelChar c =
     (let n = (of_char c :: nat)
      in (97 \<le> n \<and> n \<le> 122) \<or> (48 \<le> n \<and> n \<le> 57) \<or> n = 45)"

definition labelSafe :: "string \<Rightarrow> bool" where
  "labelSafe name = (name \<noteq> [] \<and> list_all isLabelChar (toLowerCase name))"

definition namingRule :: "NetworkConfig \<Rightarrow> Finding list" where
  "namingRule cfg =
     (if labelSafe (channelName cfg) then [] else [BadChannelName])
     @ (if labelSafe (consortium cfg) then [] else [BadConsortiumName])"

text \<open>
  Modelled from the spec: \<^verbatim>\<open>validateNetworkConfig\<close> as a whole, which is not
  among the sources: the findings of the five rule classes, in rule order.
\<close>

definition validate :: "NetworkConfig \<Rightarrow> Finding list" where
  "validate cfg =
     emptinessRule cfg @ uniquenessRule cfg @ consensusRule cfg @ batchSizeRule cfg
     @ namingRule cfg"

definition errorCount :: "Finding list \<Rightarrow> nat" where
  "errorCount fs = length (filter (\<lambda>f. severity f = Error) fs)"

definition warningCount :: "Finding list \<Rightarrow> nat" where
  "warningCount fs = length (filter (\<lambda>f. severity f = Warning) fs)"

section \<open>Sample inputs\<close>

text \<open>
  Modelled from the spec: the preset catalogue \<^verbatim>\<open>NETWORK_TEMPLATES\<close> (types.ts) is not
  among the sources. The specification names the preset Two-Organization Raft and gives
  its counts: two organizations of two peers each, three orderers. The predicate keeps
  exactly that; the sample preset adds organization names and a channel name of its own.
\<close>

definition twoOrganizationRaft :: "NetworkTemplate \<Rightarrow> bool" where
  "twoOrganizationRaft t =
     (map peerCount (tpl_organizations t) = [2, 2] \<and> ordererCount t = 3)"

definition sampleTwoOrgRaft :: NetworkTemplate where
  "sampleTwoOrgRaft =
     \<lparr>tpl_id = ''two-org-raft'',
      tpl_name = ''Two-Organization Raft'',
      description = ''Two organizations with a Raft ordering service'',
      tpl_channelName = ''mychannel'',
      tpl_organizations =
        [\<lparr>torg_name = ''Org1'', peerCount = 2, torg_type = PeerOrg\<rparr>,
         \<lparr>torg_name = ''Org2'', peerCount = 2, torg_type = PeerOrg\<rparr>],
      ordererCount = 3,
      tpl_stateDatabase = CouchDB\<rparr>"

text \<open>An identity oracle that prints the slot, and the inputs the examples run on.\<close>

fun sampleUUID :: "IdSlot \<Rightarrow> string" where
  "sampleUUID (OrgSlot k) = ''org-'' @ showNat k"
| "sampleUUID (PeerSlot k i) = ''peer-'' @ showNat k @ ''-'' @ showNat i"
| "sampleUUID (OrdererSlot i) = ''orderer-'' @ showNat i"

definition sampleRenderer :: "NetworkConfig \<Rightarrow> YAMLConfig" where
  "sampleRenderer cfg =
     \<lparr>configtx = ''configtx for '' @ channelName cfg,
      cryptoConfig = ''crypto-config for '' @ channelName cfg,
      dockerCompose = ''docker-compose for '' @ channelName cfg\<rparr>"

definition oneOrgNoOrderer :: Dashboard where
  "oneOrgNoOrderer = addOrganization ''id-1'' (initialDashboard\<lparr>newOrgName := ''Org1''\<rparr>)"

definition infoOnlyValidator :: "NetworkConfig \<Rightarrow> ValidationResult list" where
  "infoOnlyValidator cfg =
     [\<lparr>status = Info, message = ''Network version '' @ networkVersion cfg, fixHint = None\<rparr>]"

definition twoOrgs :: Dashboard where
  "twoOrgs =
     addOrganization ''id-2''
       ((addOrganization ''id-1'' (initialDashboard\<lparr>newOrgName := ''Org1''\<rparr>))
          \<lparr>newOrgName := '' Org 2 ''\<rparr>)"

definition renameUpdate :: OrganizationUpdates where
  "renameUpdate =
     \<lparr>upd_id = None, upd_name = Some ''Acme'', upd_domain = None, upd_mspID = None,
      upd_peers = None, upd_type = None, upd_country = None, upd_state = None,
      upd_locality = None\<rparr>"

definition dashedName :: Dashboard where
  "dashedName = initialDashboard\<lparr>newOrgName := ''Org-1''\<rparr>"

section \<open>Lemmas on strings and lists\<close>

lemma of_char_lt_256: "(of_char c :: nat) < 256"
  by (cases c) simp

lemma isSpace_lowerChar: "isSpace (lowerChar c) = isSpace c"
proof -
  let ?n = "of_char c :: nat"
  show ?thesis
  proof (cases "(65 \<le> ?n \<and> ?n \<le> 90) \<or> (192 \<le> ?n \<and> ?n \<le> 222 \<and> ?n \<noteq> 215)")
    case True
    then have lt: "?n + 32 < 256" by auto
    have "(of_char (char_of (?n + 32)) :: nat) = ?n + 32"
      using lt by (simp add: of_char_of)
    with True show ?thesis
      by (auto simp: isSpace_def lowerChar_def Let_def)
  next
    case False
    then show ?thesis by (auto simp: lowerChar_def Let_def)
  qed
qed

lemma stripSpace_toLowerCase: "stripSpace (toLowerCase s) = toLowerCase (stripSpace s)"
  by (induction s) (simp_all add: stripSpace_def toLowerCase_def isSpace_lowerChar)

lemma filter_not_dropWhile: "filter (\<lambda>c. \<not> P c) (dropWhile P xs) = filter (\<lambda>c. \<not> P c) xs"
  by (induction xs) simp_all

lemma stripSpace_trim: "stripSpace (trim s) = stripSpace s"
proof -
  have "filter (\<lambda>c. \<not> isSpace c) (rev (dropWhile isSpace (rev (dropWhile isSpace s))))
      = rev (filter (\<lambda>c. \<not> isSpace c) (dropWhile isSpace (rev (dropWhile isSpace s))))"
    by (simp add: rev_filter)
  also have "\<dots> = rev (filter (\<lambda>c. \<not> isSpace c) (rev (dropWhile isSpace s)))"
    by (simp only: filter_not_dropWhile)
  also have "\<dots> = filter (\<lambda>c. \<not> isSpace c) (dropWhile isSpace s)"
    by (simp add: rev_filter)
  also have "\<dots> = filter (\<lambda>c. \<not> isSpace c) s"
    by (rule filter_not_dropWhile)
  finally show ?thesis by (simp add: stripSpace_def trim_def)
qed

lemma trim_Nil_iff: "trim s = [] \<longleftrightarrow> list_all isSpace s"
proof
  assume "trim s = []"
  then have a: "\<forall>c \<in> set (dropWhile isSpace s). isSpace c"
    by (simp add: trim_def dropWhile_eq_Nil_conv)
  have "dropWhile isSpace s = []"
  proof (rule ccontr)
    assume ne: "dropWhile isSpace s \<noteq> []"
    then have "\<not> isSpace (hd (dropWhile isSpace s))" by (rule hd_dropWhile)
    moreover from ne have "hd (dropWhile isSpace s) \<in> set (dropWhile isSpace s)" by simp
    ultimately show False using a by blast
  qed
  then show "list_all isSpace s" by (simp add: dropWhile_eq_Nil_conv list_all_iff)
next
  assume "list_all isSpace s"
  then have h: "dropWhile isSpace s = []" by (simp add: dropWhile_eq_Nil_conv list_all_iff)
  show "trim s = []" unfolding trim_def h by simp
qed

lemma find_distinct_nth:
  "distinct (map f xs) \<Longrightarrow> i < length xs \<Longrightarrow> f (xs ! i) = k \<Longrightarrow>
   find (\<lambda>x. f x = k) xs = Some (xs ! i)"
proof (induction xs arbitrary: i)
  case Nil
  then show ?case by simp
next
  case (Cons x xs)
  show ?case
  proof (cases i)
    case 0
    with Cons.prems show ?thesis by simp
  next
    case (Suc j)
    with Cons.prems have "f x \<noteq> k" by auto
    with Cons Suc show ?thesis by simp
  qed
qed

section \<open>The sample inputs, evaluated\<close>

lemma twoOrgs_config:
  "config twoOrgs =
    \<lparr>organizations =
       [\<lparr>org_id = ''id-1'', org_name = ''Org1'', org_domain = ''org1.example.com'',
         mspID = ''Org1MSP'', peers = [], org_type = None, country = ''US'',
         state = ''California'', locality = ''San Francisco''\<rparr>,
        \<lparr>org_id = ''id-2'', org_name = ''Org 2'', org_domain = ''org2.example.com'',
         mspID = ''Org2MSP'', peers = [], org_type = None, country = ''US'',
         state = ''California'', locality = ''San Francisco''\<rparr>],
     orderers = [], channelName = [], consortium = ''SampleConsortium'',
     networkVersion = ''2.0'', template = None, stateDatabase = CouchDB\<rparr>"
  by code_simp

section \<open>Instantiating a preset\<close>

lemma upt_0_2: "[0..<2] = [0, 1]"
  by (simp add: numeral_2_eq_2)

lemma upt_0_3: "[0..<3] = [0, 1, 2]"
  by (simp add: numeral_3_eq_3)

lemma config_applyTemplate:
  "config (applyTemplate uuid t s) =
     \<lparr>organizations = newOrgs uuid t,
      orderers = newOrderers uuid t,
      channelName = tpl_channelName t,
      consortium = ''SampleConsortium'',
      networkVersion = ''2.0'',
      template = Some t,
      stateDatabase = tpl_stateDatabase t\<rparr>"
  by (simp add: applyTemplate_def showNotification_def)

text \<open>The topology of a preset of two organizations with two peers each and three orderers.\<close>

lemma twoOrganizationRaft_config:
  assumes "tpl_organizations t = [a, b]"
      and "peerCount a = 2" and "peerCount b = 2" and "ordererCount t = 3"
  shows "config (applyTemplate uuid t s) =
    \<lparr>organizations =
       [\<lparr>org_id = uuid (OrgSlot 0), org_name = torg_name a,
         org_domain = stripSpace (toLowerCase (torg_name a)) @ ''.example.com'',
         mspID = stripSpace (torg_name a) @ ''MSP'',
         peers =
           [\<lparr>peer_id = uuid (PeerSlot 0 0), peer_name = ''peer'' @ showNat 0,
             peer_port = 7051, peer_status = Pending, couchDBPort = 5984,
             chaincodePort = 7052\<rparr>,
            \<lparr>peer_id = uuid (PeerSlot 0 1), peer_name = ''peer'' @ showNat 1,
             peer_port = 7052, peer_status = Pending, couchDBPort = 5985,
             chaincodePort = 7053\<rparr>],
         org_type = Some (torg_type a), country = ''US'', state = ''California'',
         locality = ''San Francisco''\<rparr>,
        \<lparr>org_id = uuid (OrgSlot 1), org_name = torg_name b,
         org_domain = stripSpace (toLowerCase (torg_name b)) @ ''.example.com'',
         mspID = stripSpace (torg_name b) @ ''MSP'',
         peers =
           [\<lparr>peer_id = uuid (PeerSlot 1 0), peer_name = ''peer'' @ showNat 0,
             peer_port = 7051, peer_status = Pending, couchDBPort = 5984,
             chaincodePort = 7052\<rparr>,
            \<lparr>peer_id = uuid (PeerSlot 1 1), peer_name = ''peer'' @ showNat 1,
             peer_port = 7052, peer_status = Pending, couchDBPort = 5985,
             chaincodePort = 7053\<rparr>],
         org_type = Some (torg_type b), country = ''US'', state = ''California'',
         locality = ''San Francisco''\<rparr>],
     orderers =
       [\<lparr>ord_id = uuid (OrdererSlot 0), ord_name = ''orderer'' @ showNat 0,
         ord_domain = ''orderer.example.com'', ord_port = 7050, ord_status = Pending,
         ord_type = Etcdraft, batchTimeout = ''2s'',
         batchSize = \<lparr>maxMessageCount = 500, absoluteMaxBytes = 10485760,
                      preferredMaxBytes = 2097152\<rparr>\<rparr>,
        \<lparr>ord_id = uuid (OrdererSlot 1), ord_name = ''orderer'' @ showNat 1,
         ord_domain = ''orderer.example.com'', ord_port = 7051, ord_status = Pending,
         ord_type = Etcdraft, batchTimeout = ''2s'',
         batchSize = \<lparr>maxMessageCount = 500, absoluteMaxBytes = 10485760,
                      preferredMaxBytes = 2097152\<rparr>\<rparr>,
        \<lparr>ord_id = uuid (OrdererSlot 2), ord_name = ''orderer'' @ showNat 2,
         ord_domain = ''orderer.example.com'', ord_port = 7052, ord_status = Pending,
         ord_type = Etcdraft, batchTimeout = ''2s'',
         batchSize = \<lparr>maxMessageCount = 500, absoluteMaxBytes = 10485760,
                      preferredMaxBytes = 2097152\<rparr>\<rparr>],
     channelName = tpl_channelName t, consortium = ''SampleConsortium'',
     networkVersion = ''2.0'', template = Some t, stateDatabase = tpl_stateDatabase t\<rparr>"
  by (simp add: config_applyTemplate newOrgs_def newOrderers_def assms upt_0_2 upt_0_3
      del: upt_Suc)

lemma twoOrganizationRaft_shape:
  assumes "twoOrganizationRaft t"
  obtains a b where "tpl_organizations t = [a, b]" "peerCount a = 2" "peerCount b = 2"
    "ordererCount t = 3"
  using assms by (auto simp: twoOrganizationRaft_def)

lemma sampleTwoOrgRaft_shape: "twoOrganizationRaft sampleTwoOrgRaft"
  by (simp add: twoOrganizationRaft_def sampleTwoOrgRaft_def)

subsection \<open>Ports\<close>

lemma twoOrganizationRaft_ports_collide:
  assumes "twoOrganizationRaft t"
  shows "allPorts (config (applyTemplate uuid t s)) =
    [7051, 5984, 7052, 7052, 5985, 7053, 7051, 5984, 7052, 7052, 5985, 7053,
     7050, 7051, 7052]"
proof -
  from assms obtain a b where sh: "tpl_organizations t = [a, b]" "peerCount a = 2"
    "peerCount b = 2" "ordererCount t = 3" by (rule twoOrganizationRaft_shape)
  show ?thesis
    by (simp add: twoOrganizationRaft_config [OF sh] allPorts_def peerPorts_def)
qed

text \<open>
  C1, as the specification states it, fails: the preset of two organizations with two
  peers each and three orderers gives both organizations the peer ports 7051 and 7052,
  and the same two ports to the second and third orderer.
\<close>

theorem applyTemplate_ports_not_unique:
  "\<not> portsUnique (config (applyTemplate sampleUUID sampleTwoOrgRaft initialDashboard))"
  by (simp add: portsUnique_def twoOrganizationRaft_ports_collide [OF sampleTwoOrgRaft_shape])

lemma newOrgs_ports:
  "org \<in> set (newOrgs uuid t) \<Longrightarrow>
     distinct (map peer_port (peers org)) \<and> distinct (map couchDBPort (peers org))
     \<and> distinct (map chaincodePort (peers org))"
  by (auto simp: newOrgs_def distinct_map o_def inj_on_def)

lemma newOrderers_ports: "distinct (map ord_port (newOrderers uuid t))"
  by (simp add: newOrderers_def distinct_map o_def inj_on_def)

text \<open>
  C1, amended: for every preset, the ports of one kind are pairwise distinct within one
  organization (the peer ports of its peers, their state-database ports, their chaincode
  ports), and the orderer ports are pairwise distinct.
\<close>

theorem applyTemplate_ports_distinct_per_kind:
  "(\<forall>org \<in> set (organizations (config (applyTemplate uuid t s))).
       distinct (map peer_port (peers org))
     \<and> distinct (map couchDBPort (peers org))
     \<and> distinct (map chaincodePort (peers org)))
   \<and> distinct (map ord_port (orderers (config (applyTemplate uuid t s))))"
  by (simp add: config_applyTemplate newOrgs_ports newOrderers_ports)

theorem applyTemplate_ports_distinct_per_kind_witness:
  "list_all (\<lambda>org. distinct (map peer_port (peers org))
       \<and> distinct (map couchDBPort (peers org))
       \<and> distinct (map chaincodePort (peers org)))
     (organizations (config (applyTemplate sampleUUID sampleTwoOrgRaft initialDashboard)))
   \<and> distinct (map ord_port
       (orderers (config (applyTemplate sampleUUID sampleTwoOrgRaft initialDashboard))))
   \<and> length (organizations (config (applyTemplate sampleUUID sampleTwoOrgRaft initialDashboard)))
       = 2"
proof -
  have l: "length (organizations
      (config (applyTemplate sampleUUID sampleTwoOrgRaft initialDashboard))) = 2"
    by (simp add: config_applyTemplate newOrgs_def sampleTwoOrgRaft_def)
  from applyTemplate_ports_distinct_per_kind [of sampleUUID sampleTwoOrgRaft initialDashboard] l
  show ?thesis by (simp add: list_all_iff)
qed

subsection \<open>Wholesale replacement\<close>

lemma identities_newOrgs:
  "set (map org_id (newOrgs uuid t)) \<subseteq> range uuid"
  by (simp add: newOrgs_def split_def image_subset_iff)

lemma identities_newOrgs_peers:
  "set (concat (map (\<lambda>org. map peer_id (peers org)) (newOrgs uuid t))) \<subseteq> range uuid"
  by (force simp: newOrgs_def split_def o_def)

lemma identities_newOrderers: "set (map ord_id (newOrderers uuid t)) \<subseteq> range uuid"
  by (auto simp: newOrderers_def)

lemma identities_applyTemplate:
  "set (identities (config (applyTemplate uuid t s))) \<subseteq> range uuid"
  using identities_newOrgs [of uuid t] identities_newOrgs_peers [of uuid t]
    identities_newOrderers [of uuid t]
  by (simp add: identities_def config_applyTemplate)

lemma forgetIds_applyTemplate:
  "forgetIds (config (applyTemplate uuid t s)) =
     forgetIds (config (applyTemplate uuid' t s'))"
  by (simp add: forgetIds_def config_applyTemplate newOrgs_def newOrderers_def o_def
      split_def)

lemma sampleUUID_not_id: "sampleUUID k \<noteq> ''id-1'' \<and> sampleUUID k \<noteq> ''id-2''"
  by (cases k) simp_all

lemma twoOrgs_identities: "identities (config twoOrgs) = [''id-1'', ''id-2'']"
  by (simp add: twoOrgs_config identities_def)

text \<open>
  C6: the topology after \<^verbatim>\<open>applyTemplate\<close> is the same whatever the dashboard held
  before; with the identities blanked it is the same whatever the oracle minted, so
  organizations, peers, orderers, channel name, consortium, version and state database
  are a function of the preset alone. When no minted identity is an identity of the prior
  topology, none of the prior identities is in the result.
\<close>

theorem applyTemplate_replaces_wholesale:
  "config (applyTemplate uuid t s) = config (applyTemplate uuid t s')
   \<and> forgetIds (config (applyTemplate uuid t s)) = forgetIds (config (applyTemplate uuid' t s'))
   \<and> channelName (config (applyTemplate uuid t s)) = tpl_channelName t
   \<and> consortium (config (applyTemplate uuid t s)) = ''SampleConsortium''
   \<and> networkVersion (config (applyTemplate uuid t s)) = ''2.0''
   \<and> stateDatabase (config (applyTemplate uuid t s)) = tpl_stateDatabase t
   \<and> ((\<forall>k. uuid k \<notin> set (identities (config s))) \<longrightarrow>
         set (identities (config (applyTemplate uuid t s))) \<inter> set (identities (config s)) = {})"
proof -
  have a: "config (applyTemplate uuid t s) = config (applyTemplate uuid t s')"
    by (simp only: config_applyTemplate)
  have f: "forgetIds (config (applyTemplate uuid t s))
      = forgetIds (config (applyTemplate uuid' t s'))"
    by (rule forgetIds_applyTemplate)
  have b1: "channelName (config (applyTemplate uuid t s)) = tpl_channelName t"
    by (simp add: config_applyTemplate)
  have b2: "consortium (config (applyTemplate uuid t s)) = ''SampleConsortium''"
    by (simp add: config_applyTemplate)
  have b3: "networkVersion (config (applyTemplate uuid t s)) = ''2.0''"
    by (simp add: config_applyTemplate)
  have b4: "stateDatabase (config (applyTemplate uuid t s)) = tpl_stateDatabase t"
    by (simp add: config_applyTemplate)
  have c: "(\<forall>k. uuid k \<notin> set (identities (config s))) \<longrightarrow>
         set (identities (config (applyTemplate uuid t s))) \<inter> set (identities (config s)) = {}"
  proof
    assume fresh: "\<forall>k. uuid k \<notin> set (identities (config s))"
    show "set (identities (config (applyTemplate uuid t s))) \<inter> set (identities (config s)) = {}"
    proof (rule ccontr)
      assume "set (identities (config (applyTemplate uuid t s)))
          \<inter> set (identities (config s)) \<noteq> {}"
      then obtain x where x1: "x \<in> set (identities (config (applyTemplate uuid t s)))"
        and x2: "x \<in> set (identities (config s))" by auto
      from x1 identities_applyTemplate [of uuid t s] obtain k where "x = uuid k" by auto
      with x2 fresh show False by simp
    qed
  qed
  show ?thesis using a f b1 b2 b3 b4 c by (intro conjI)
qed

theorem applyTemplate_replaces_wholesale_witness:
  "(\<forall>k. sampleUUID k \<notin> set (identities (config twoOrgs)))
   \<and> set (identities (config (applyTemplate sampleUUID sampleTwoOrgRaft twoOrgs)))
       \<inter> set (identities (config twoOrgs)) = {}
   \<and> config (applyTemplate sampleUUID sampleTwoOrgRaft twoOrgs)
       = config (applyTemplate sampleUUID sampleTwoOrgRaft initialDashboard)
   \<and> channelName (config (applyTemplate sampleUUID sampleTwoOrgRaft twoOrgs))
       = tpl_channelName sampleTwoOrgRaft"
proof -
  have h: "\<forall>k. sampleUUID k \<notin> set (identities (config twoOrgs))"
    by (simp add: twoOrgs_identities sampleUUID_not_id)
  note w = applyTemplate_replaces_wholesale
    [of sampleUUID sampleTwoOrgRaft twoOrgs initialDashboard sampleUUID]
  from w have w1: "config (applyTemplate sampleUUID sampleTwoOrgRaft twoOrgs)
       = config (applyTemplate sampleUUID sampleTwoOrgRaft initialDashboard)"
    by (elim conjE)
  from w have w3: "channelName (config (applyTemplate sampleUUID sampleTwoOrgRaft twoOrgs))
       = tpl_channelName sampleTwoOrgRaft"
    by (elim conjE)
  from w have "(\<forall>k. sampleUUID k \<notin> set (identities (config twoOrgs))) \<longrightarrow>
      set (identities (config (applyTemplate sampleUUID sampleTwoOrgRaft twoOrgs)))
       \<inter> set (identities (config twoOrgs)) = {}"
    by (elim conjE)
  from this h have w7:
    "set (identities (config (applyTemplate sampleUUID sampleTwoOrgRaft twoOrgs)))
       \<inter> set (identities (config twoOrgs)) = {}"
    by (rule mp)
  show ?thesis using h w7 w1 w3 by (intro conjI)
qed

subsection \<open>The derived membership-service-provider identifier\<close>

text \<open>
  C4, as the specification states it, fails: for the name \<^verbatim>\<open>Org-1\<close> the derived
  identifier keeps the hyphen.
\<close>

theorem addOrganization_mspID_keeps_hyphen:
  "mspID (last (organizations (config (addOrganization ''id-1'' dashedName))))
     \<noteq> alphanumericMSP
          (org_name (last (organizations (config (addOrganization ''id-1'' dashedName)))))"
  by code_simp

lemma stripSpace_no_space: "\<forall>c \<in> set (stripSpace name). \<not> isSpace c"
  by (simp add: stripSpace_def)

lemma newOrgs_mspID:
  "org \<in> set (newOrgs uuid t) \<Longrightarrow> mspID org = stripSpace (org_name org) @ ''MSP''"
  by (auto simp: newOrgs_def)

text \<open>
  C4, amended: for every organization created by \<^verbatim>\<open>addOrganization\<close> or by
  instantiating a preset, the derived identifier is the organization's name with all
  white space removed, followed by \<^verbatim>\<open>MSP\<close>: a function of the name, with no white
  space before the suffix. Other characters of the name are kept as they are.
\<close>

theorem derived_mspID_is_name_without_space:
  "(\<not> list_all isSpace (newOrgName s) \<longrightarrow>
      mspID (last (organizations (config (addOrganization newId s))))
        = stripSpace (org_name (last (organizations (config (addOrganization newId s)))))
          @ ''MSP'')
   \<and> (\<forall>org \<in> set (organizations (config (applyTemplate uuid t s))).
         mspID org = stripSpace (org_name org) @ ''MSP'')
   \<and> (\<forall>c \<in> set (stripSpace name). \<not> isSpace c)"
proof -
  have a: "\<not> list_all isSpace (newOrgName s) \<longrightarrow>
      mspID (last (organizations (config (addOrganization newId s))))
        = stripSpace (org_name (last (organizations (config (addOrganization newId s)))))
          @ ''MSP''"
    by (simp add: addOrganization_def showNotification_def Let_def trim_Nil_iff [symmetric]
        stripSpace_trim)
  have b: "\<forall>org \<in> set (organizations (config (applyTemplate uuid t s))).
         mspID org = stripSpace (org_name org) @ ''MSP''"
    by (simp add: config_applyTemplate newOrgs_mspID)
  show ?thesis using a b stripSpace_no_space [of name] by (intro conjI)
qed

theorem derived_mspID_is_name_without_space_witness:
  "\<not> list_all isSpace (newOrgName (initialDashboard\<lparr>newOrgName := '' Org 2 ''\<rparr>))
   \<and> mspID (last (organizations
        (config (addOrganization ''id-1'' (initialDashboard\<lparr>newOrgName := '' Org 2 ''\<rparr>)))))
       = ''Org2MSP''
   \<and> list_all (\<lambda>org. mspID org = stripSpace (org_name org) @ ''MSP'')
        (organizations (config (applyTemplate sampleUUID sampleTwoOrgRaft
           (initialDashboard\<lparr>newOrgName := '' Org 2 ''\<rparr>))))
   \<and> list_all (\<lambda>c. \<not> isSpace c) (stripSpace '' Org 2 '')"
proof -
  have h: "\<not> list_all isSpace (newOrgName (initialDashboard\<lparr>newOrgName := '' Org 2 ''\<rparr>))"
    by (simp add: isSpace_def)
  have e: "org_name (last (organizations
        (config (addOrganization ''id-1'' (initialDashboard\<lparr>newOrgName := '' Org 2 ''\<rparr>)))))
       = ''Org 2''" by code_simp
  have e2: "stripSpace ''Org 2'' = ''Org2''" by code_simp
  from derived_mspID_is_name_without_space
      [of "initialDashboard\<lparr>newOrgName := '' Org 2 ''\<rparr>" "''id-1''" sampleUUID
        sampleTwoOrgRaft "'' Org 2 ''"] h
  show ?thesis by (simp add: e e2 list_all_iff isSpace_def)
qed

subsection \<open>Validating an instantiated preset\<close>

lemma labelSafe_SampleConsortium: "labelSafe ''SampleConsortium''"
  by code_simp

lemma labelSafe_mychannel: "labelSafe ''mychannel''"
  by code_simp

lemma sample_names_differ: "stripSpace ''Org1'' \<noteq> stripSpace ''Org2''"
  by code_simp

lemma validate_twoOrganizationRaft:
  assumes "twoOrganizationRaft t"
      and "distinct (map (\<lambda>org. stripSpace (torg_name org)) (tpl_organizations t))"
      and "labelSafe (tpl_channelName t)"
  shows "validate (config (applyTemplate uuid t s)) =
    [DuplicatePort (uuid (PeerSlot 0 0), PeerListen) (uuid (PeerSlot 1 0), PeerListen) 7051,
     DuplicatePort (uuid (PeerSlot 0 0), PeerListen) (uuid (OrdererSlot 1), OrdererListen) 7051,
     DuplicatePort (uuid (PeerSlot 0 0), StateDb) (uuid (PeerSlot 1 0), StateDb) 5984,
     DuplicatePort (uuid (PeerSlot 0 0), Chaincode) (uuid (PeerSlot 0 1), PeerListen) 7052,
     DuplicatePort (uuid (PeerSlot 0 0), Chaincode) (uuid (PeerSlot 1 0), Chaincode) 7052,
     DuplicatePort (uuid (PeerSlot 0 0), Chaincode) (uuid (PeerSlot 1 1), PeerListen) 7052,
     DuplicatePort (uuid (PeerSlot 0 0), Chaincode) (uuid (OrdererSlot 2), OrdererListen) 7052,
     DuplicatePort (uuid (PeerSlot 0 1), PeerListen) (uuid (PeerSlot 1 0), Chaincode) 7052,
     DuplicatePort (uuid (PeerSlot 0 1), PeerListen) (uuid (PeerSlot 1 1), PeerListen) 7052,
     DuplicatePort (uuid (PeerSlot 0 1), PeerListen) (uuid (OrdererSlot 2), OrdererListen) 7052,
     DuplicatePort (uuid (PeerSlot 0 1), StateDb) (uuid (PeerSlot 1 1), StateDb) 5985,
     DuplicatePort (uuid (PeerSlot 0 1), Chaincode) (uuid (PeerSlot 1 1), Chaincode) 7053,
     DuplicatePort (uuid (PeerSlot 1 0), PeerListen) (uuid (OrdererSlot 1), OrdererListen) 7051,
     DuplicatePort (uuid (PeerSlot 1 0), Chaincode) (uuid (PeerSlot 1 1), PeerListen) 7052,
     DuplicatePort (uuid (PeerSlot 1 0), Chaincode) (uuid (OrdererSlot 2), OrdererListen) 7052,
     DuplicatePort (uuid (PeerSlot 1 1), PeerListen) (uuid (OrdererSlot 2), OrdererListen) 7052]"
proof -
  from assms(1) obtain a b where sh: "tpl_organizations t = [a, b]" "peerCount a = 2"
    "peerCount b = 2" "ordererCount t = 3" by (rule twoOrganizationRaft_shape)
  note cfg = twoOrganizationRaft_config [OF sh, of uuid s]
  from assms(2) sh(1) have ne: "stripSpace (torg_name a) \<noteq> stripSpace (torg_name b)"
    by simp
  have e: "emptinessRule (config (applyTemplate uuid t s)) = []"
    by (simp add: cfg emptinessRule_def)
  have c: "consensusRule (config (applyTemplate uuid t s)) = []"
    by (simp add: cfg consensusRule_def)
  have b: "batchSizeRule (config (applyTemplate uuid t s)) = []"
    by (simp add: cfg batchSizeRule_def)
  have n: "namingRule (config (applyTemplate uuid t s)) = []"
    using assms(3) by (simp add: cfg namingRule_def labelSafe_SampleConsortium)
  show ?thesis
    unfolding validate_def e c b n
    using ne by (simp add: cfg uniquenessRule_def portBindings_def)
qed

lemma sampleTwoOrgRaft_names:
  "distinct (map (\<lambda>org. stripSpace (torg_name org)) (tpl_organizations sampleTwoOrgRaft))"
  by (simp add: sampleTwoOrgRaft_def sample_names_differ)

lemma sampleTwoOrgRaft_channel: "labelSafe (tpl_channelName sampleTwoOrgRaft)"
  by (simp add: sampleTwoOrgRaft_def labelSafe_mychannel)

text \<open>
  C3, as the specification states it, fails against the validator of the specification:
  the instantiated preset has colliding ports, and each collision is an error.
\<close>

theorem twoOrganizationRaft_does_not_validate_clean:
  "\<not> (errorCount (validate (config (applyTemplate sampleUUID sampleTwoOrgRaft initialDashboard)))
        = 0
      \<and> warningCount
          (validate (config (applyTemplate sampleUUID sampleTwoOrgRaft initialDashboard))) = 0)"
  by (simp add: errorCount_def
      validate_twoOrganizationRaft
        [OF sampleTwoOrgRaft_shape sampleTwoOrgRaft_names sampleTwoOrgRaft_channel])

text \<open>
  C3, amended: instantiating a Two-Organization Raft preset (two organizations of two
  peers each, three orderers) whose organization names differ after white space is
  removed and whose channel name is a safe label, then validating the result, yields no
  warning and at least one error, and every finding is a duplicate-port error.
\<close>

theorem twoOrganizationRaft_validates_with_port_errors_only:
  assumes "twoOrganizationRaft t"
      and "distinct (map (\<lambda>org. stripSpace (torg_name org)) (tpl_organizations t))"
      and "labelSafe (tpl_channelName t)"
  shows "warningCount (validate (config (applyTemplate uuid t s))) = 0
     \<and> 0 < errorCount (validate (config (applyTemplate uuid t s)))
     \<and> list_all isDuplicatePort (validate (config (applyTemplate uuid t s)))"
  by (simp add: warningCount_def errorCount_def validate_twoOrganizationRaft [OF assms])

theorem twoOrganizationRaft_validates_with_port_errors_only_witness:
  "twoOrganizationRaft sampleTwoOrgRaft
   \<and> distinct (map (\<lambda>org. stripSpace (torg_name org)) (tpl_organizations sampleTwoOrgRaft))
   \<and> labelSafe (tpl_channelName sampleTwoOrgRaft)
   \<and> warningCount (validate (config (applyTemplate sampleUUID sampleTwoOrgRaft twoOrgs))) = 0
   \<and> 0 < errorCount (validate (config (applyTemplate sampleUUID sampleTwoOrgRaft twoOrgs)))
   \<and> list_all isDuplicatePort
       (validate (config (applyTemplate sampleUUID sampleTwoOrgRaft twoOrgs)))"
  using twoOrganizationRaft_validates_with_port_errors_only
      [OF sampleTwoOrgRaft_shape sampleTwoOrgRaft_names sampleTwoOrgRaft_channel,
        of sampleUUID twoOrgs]
    sampleTwoOrgRaft_shape sampleTwoOrgRaft_names sampleTwoOrgRaft_channel
  by (intro conjI) (elim conjE, assumption)+

section \<open>Generating the documents\<close>

text \<open>
  C2, as the specification states it, fails: a dashboard with one organization and no
  orderer passes the guard of \<^verbatim>\<open>generateConfigs\<close>, which then stores the documents
  of the renderer and reports success.
\<close>

theorem generateConfigs_without_orderer_not_blocked:
  "\<not> (malformedTopology oneOrgNoOrderer (generateConfigs sampleRenderer oneOrgNoOrderer)
       \<longleftrightarrow> (organizations (config oneOrgNoOrderer) = []
            \<or> orderers (config oneOrgNoOrderer) = []))"
  by (simp add: malformedTopology_def generateConfigs_def oneOrgNoOrderer_def
      addOrganization_def initialDashboard_def initialConfig_def showNotification_def
      trim_def isSpace_def Let_def)

text \<open>
  C2, amended: \<^verbatim>\<open>generateConfigs\<close> reports the structural blocker, and leaves the
  stored documents as they were, exactly when the topology has no organization. With at
  least one organization it stores the three documents the renderer returns for the
  topology, whatever the number of orderers. The topology itself is never changed.
\<close>

theorem generateConfigs_blocked_iff_no_organization:
  "(malformedTopology s (generateConfigs gen s) \<longleftrightarrow> organizations (config s) = [])
   \<and> yamlPreview (generateConfigs gen s) =
       (if organizations (config s) = [] then yamlPreview s else Some (gen (config s)))
   \<and> config (generateConfigs gen s) = config s"
  by (simp add: malformedTopology_def generateConfigs_def showNotification_def Let_def)

text \<open>
  Running \<^verbatim>\<open>generateConfigs\<close> again on the state it left stores the same
  documents: the handler passes the renderer the topology and nothing else, and does
  not change the topology.
\<close>

lemma generateConfigs_rerun:
  "yamlPreview (generateConfigs gen (generateConfigs gen s))
     = yamlPreview (generateConfigs gen s)"
  by (simp add: generateConfigs_def showNotification_def Let_def)

text \<open>
  Two dashboards that hold the same topology, with at least one organization, get the
  same documents: nothing else of the state reaches the renderer.
\<close>

lemma generateConfigs_same_topology:
  "config s = config s' \<Longrightarrow> organizations (config s) \<noteq> [] \<Longrightarrow>
   yamlPreview (generateConfigs gen s) = yamlPreview (generateConfigs gen s')"
  by (simp add: generateConfigs_def showNotification_def Let_def)

section \<open>The overall status of a check\<close>

text \<open>
  C7: the specification reports a result list with only info entries as clean.
  \<^verbatim>\<open>checkConfiguration\<close> tests the length of the list instead of looking for a
  warning: on a validator that returns one info entry it shows the warning message.
\<close>

theorem checkConfiguration_info_only_shows_warning:
  "map status (validationResults (checkConfiguration infoOnlyValidator initialDashboard))
     = [Info]
   \<and> notification (checkConfiguration infoOnlyValidator initialDashboard) =
       Some (''Configuration has warnings that should be reviewed'', NotifyWarning)"
  by (simp add: checkConfiguration_def infoOnlyValidator_def showNotification_def Let_def)

section \<open>Editing organizations and peers\<close>

lemma addPeer_organizations:
  assumes "distinct (map org_id (organizations (config s)))"
      and "i < length (organizations (config s))"
      and "org_id (organizations (config s) ! i) = orgId"
  shows "organizations (config (addPeer newId orgId s)) =
     map (\<lambda>o'. if org_id o' = orgId
          then o'\<lparr>peers := peers o' @
            [\<lparr>peer_id = newId,
              peer_name = ''peer'' @ showNat (length (peers (organizations (config s) ! i))),
              peer_port = 7051 + length (peers (organizations (config s) ! i)),
              peer_status = Pending,
              couchDBPort = 5984 + length (peers (organizations (config s) ! i)),
              chaincodePort = 7052 + length (peers (organizations (config s) ! i))\<rparr>]\<rparr>
          else o') (organizations (config s))"
  using find_distinct_nth [OF assms]
  by (simp add: addPeer_def showNotification_def Let_def)

lemma addPeer_ids:
  "map org_id (organizations (config (addPeer newId orgId s)))
     = map org_id (organizations (config s))"
  by (simp add: addPeer_def showNotification_def Let_def split: option.splits)

lemma not_distinct_allPorts:
  assumes "i < length (organizations cfg)"
      and "\<not> distinct (concat (map peerPorts (peers (organizations cfg ! i))))"
  shows "\<not> portsUnique cfg"
proof
  assume "portsUnique cfg"
  then have "distinct (concat (map (\<lambda>org. concat (map peerPorts (peers org)))
      (organizations cfg)))"
    by (simp add: portsUnique_def allPorts_def)
  then have "\<forall>ys \<in> set (map (\<lambda>org. concat (map peerPorts (peers org)))
      (organizations cfg)). distinct ys"
    by (simp add: distinct_concat_iff)
  with assms(1) have "distinct (concat (map peerPorts (peers (organizations cfg ! i))))"
    by auto
  with assms(2) show False by simp
qed

text \<open>
  C8: in a topology whose organizations have distinct identities, \<^verbatim>\<open>addPeer\<close> on the
  organization at position \<open>i\<close>, which has \<open>n\<close> peers, appends exactly one peer to it,
  with peer port \<open>7051 + n\<close>, state-database port \<open>5984 + n\<close> and chaincode port
  \<open>7052 + n\<close>, and changes no other organization. When the organization starts with
  no peer and receives two, the second peer's port 7052 is the first peer's chaincode
  port, and the topology breaks the port-uniqueness rule.
\<close>

theorem addPeer_appends_one_peer:
  assumes "distinct (map org_id (organizations (config s)))"
      and "i < length (organizations (config s))"
      and "org_id (organizations (config s) ! i) = orgId"
      and "length (peers (organizations (config s) ! i)) = n"
  shows "length (organizations (config (addPeer newId orgId s)))
           = length (organizations (config s))
     \<and> organizations (config (addPeer newId orgId s)) ! i =
         (organizations (config s) ! i)\<lparr>peers := peers (organizations (config s) ! i) @
            [\<lparr>peer_id = newId, peer_name = ''peer'' @ showNat n, peer_port = 7051 + n,
              peer_status = Pending, couchDBPort = 5984 + n, chaincodePort = 7052 + n\<rparr>]\<rparr>
     \<and> (\<forall>j < length (organizations (config s)). j \<noteq> i \<longrightarrow>
           organizations (config (addPeer newId orgId s)) ! j = organizations (config s) ! j)
     \<and> (n = 0 \<longrightarrow>
           map peer_port
             (peers (organizations (config (addPeer newId' orgId (addPeer newId orgId s))) ! i))
             = [7051, 7052]
         \<and> map chaincodePort
             (peers (organizations (config (addPeer newId' orgId (addPeer newId orgId s))) ! i))
             = [7052, 7053]
         \<and> \<not> portsUnique (config (addPeer newId' orgId (addPeer newId orgId s))))"
proof -
  let ?orgs = "organizations (config s)"
  let ?s1 = "addPeer newId orgId s"
  note eq1 = addPeer_organizations [OF assms(1-3), of newId]
  have others: "\<And>j. j < length ?orgs \<Longrightarrow> j \<noteq> i \<Longrightarrow> org_id (?orgs ! j) \<noteq> orgId"
    using assms(1-3) by (metis length_map nth_eq_iff_index_eq nth_map)
  have a: "length (organizations (config ?s1)) = length ?orgs"
    by (simp add: eq1)
  have b: "organizations (config ?s1) ! i =
         (?orgs ! i)\<lparr>peers := peers (?orgs ! i) @
            [\<lparr>peer_id = newId, peer_name = ''peer'' @ showNat n, peer_port = 7051 + n,
              peer_status = Pending, couchDBPort = 5984 + n, chaincodePort = 7052 + n\<rparr>]\<rparr>"
    using assms(2-4) by (simp add: eq1)
  have c: "\<forall>j < length ?orgs. j \<noteq> i \<longrightarrow> organizations (config ?s1) ! j = ?orgs ! j"
    using others by (simp add: eq1)
  have d: "map peer_port (peers (organizations (config (addPeer newId' orgId ?s1)) ! i))
             = [7051, 7052]
         \<and> map chaincodePort (peers (organizations (config (addPeer newId' orgId ?s1)) ! i))
             = [7052, 7053]
         \<and> \<not> portsUnique (config (addPeer newId' orgId ?s1))" if "n = 0"
  proof -
    have d1: "distinct (map org_id (organizations (config ?s1)))"
      using assms(1) by (simp only: addPeer_ids)
    have i1: "i < length (organizations (config ?s1))" using a assms(2) by simp
    have id1: "org_id (organizations (config ?s1) ! i) = orgId"
      using assms(3) by (simp add: b)
    note eq2 = addPeer_organizations [OF d1 i1 id1, of newId']
    from that assms(4) have p0: "peers (?orgs ! i) = []" by simp
    have pe: "peers (organizations (config (addPeer newId' orgId ?s1)) ! i) =
       [\<lparr>peer_id = newId, peer_name = ''peer'' @ showNat 0, peer_port = 7051,
         peer_status = Pending, couchDBPort = 5984, chaincodePort = 7052\<rparr>,
        \<lparr>peer_id = newId', peer_name = ''peer'' @ showNat 1, peer_port = 7052,
         peer_status = Pending, couchDBPort = 5985, chaincodePort = 7053\<rparr>]"
      using i1 id1 that p0 by (simp add: eq2 b)
    have "i < length (organizations (config (addPeer newId' orgId ?s1)))"
      using i1 by (simp add: eq2)
    moreover have "\<not> distinct (concat (map peerPorts
        (peers (organizations (config (addPeer newId' orgId ?s1)) ! i))))"
      by (simp add: pe peerPorts_def)
    ultimately have "\<not> portsUnique (config (addPeer newId' orgId ?s1))"
      by (rule not_distinct_allPorts)
    then show ?thesis by (simp add: pe)
  qed
  from a b c d show ?thesis by blast
qed

theorem addPeer_appends_one_peer_witness:
  "distinct (map org_id (organizations (config twoOrgs)))
   \<and> (0::nat) < length (organizations (config twoOrgs))
   \<and> org_id (organizations (config twoOrgs) ! 0) = ''id-1''
   \<and> length (peers (organizations (config twoOrgs) ! 0)) = 0
   \<and> map peer_port (peers (organizations (config (addPeer ''p-1'' ''id-1'' twoOrgs)) ! 0))
       = [7051]
   \<and> organizations (config (addPeer ''p-1'' ''id-1'' twoOrgs)) ! 1
       = organizations (config twoOrgs) ! 1
   \<and> map peer_port (peers (organizations
         (config (addPeer ''p-2'' ''id-1'' (addPeer ''p-1'' ''id-1'' twoOrgs))) ! 0))
       = [7051, 7052]
   \<and> map chaincodePort (peers (organizations
         (config (addPeer ''p-2'' ''id-1'' (addPeer ''p-1'' ''id-1'' twoOrgs))) ! 0))
       = [7052, 7053]
   \<and> \<not> portsUnique (config (addPeer ''p-2'' ''id-1'' (addPeer ''p-1'' ''id-1'' twoOrgs)))"
proof -
  have h1: "distinct (map org_id (organizations (config twoOrgs)))"
    by (simp add: twoOrgs_config)
  have h2: "(0::nat) < length (organizations (config twoOrgs))"
    by (simp add: twoOrgs_config)
  have h3: "org_id (organizations (config twoOrgs) ! 0) = ''id-1''"
    by (simp add: twoOrgs_config)
  have h4: "length (peers (organizations (config twoOrgs) ! 0)) = 0"
    by (simp add: twoOrgs_config)
  have l: "length (organizations (config twoOrgs)) = 2"
    by (simp add: twoOrgs_config)
  from addPeer_appends_one_peer [OF h1 h2 h3 h4, of "''p-1''" "''p-2''"] h1 h2 h3 h4 l
  show ?thesis by simp
qed

text \<open>
  C9: \<^verbatim>\<open>addOrganization\<close> with an empty or white-space-only name leaves the topology
  as it is. With any other name it appends exactly one organization: its name is the
  trimmed input, its domain is the lower-cased name without white space followed by
  \<^verbatim>\<open>.example.com\<close>, and it has no peer; nothing else of the topology changes.
\<close>

theorem addOrganization_blank_or_appends:
  "(list_all isSpace (newOrgName s) \<longrightarrow> config (addOrganization newId s) = config s)
   \<and> (\<not> list_all isSpace (newOrgName s) \<longrightarrow>
        organizations (config (addOrganization newId s)) =
          organizations (config s) @
            [\<lparr>org_id = newId,
              org_name = trim (newOrgName s),
              org_domain = stripSpace (toLowerCase (trim (newOrgName s))) @ ''.example.com'',
              mspID = stripSpace (trim (newOrgName s)) @ ''MSP'',
              peers = [],
              org_type = None,
              country = ''US'', state = ''California'', locality = ''San Francisco''\<rparr>]
        \<and> (config (addOrganization newId s))\<lparr>organizations := organizations (config s)\<rparr>
            = config s)"
  by (simp add: addOrganization_def showNotification_def Let_def trim_Nil_iff [symmetric]
      stripSpace_toLowerCase stripSpace_trim)

theorem addOrganization_blank_or_appends_witness:
  "list_all isSpace (newOrgName (initialDashboard\<lparr>newOrgName := ''  ''\<rparr>))
   \<and> config (addOrganization ''id-1'' (initialDashboard\<lparr>newOrgName := ''  ''\<rparr>))
       = config (initialDashboard\<lparr>newOrgName := ''  ''\<rparr>)
   \<and> \<not> list_all isSpace (newOrgName (initialDashboard\<lparr>newOrgName := '' Org 2 ''\<rparr>))
   \<and> map org_name (organizations
         (config (addOrganization ''id-1'' (initialDashboard\<lparr>newOrgName := '' Org 2 ''\<rparr>))))
       = [''Org 2'']
   \<and> map org_domain (organizations
         (config (addOrganization ''id-1'' (initialDashboard\<lparr>newOrgName := '' Org 2 ''\<rparr>))))
       = [''org2.example.com'']"
proof -
  have h1: "list_all isSpace (newOrgName (initialDashboard\<lparr>newOrgName := ''  ''\<rparr>))"
    by (simp add: isSpace_def)
  have h2: "\<not> list_all isSpace (newOrgName (initialDashboard\<lparr>newOrgName := '' Org 2 ''\<rparr>))"
    by (simp add: isSpace_def)
  have e1: "trim '' Org 2 '' = ''Org 2''" by code_simp
  have e2: "stripSpace (toLowerCase ''Org 2'') = ''org2''" by code_simp
  have e3: "organizations (config initialDashboard) = []"
    by (simp add: initialDashboard_def initialConfig_def)
  from addOrganization_blank_or_appends [of "initialDashboard\<lparr>newOrgName := ''  ''\<rparr>" "''id-1''"]
    addOrganization_blank_or_appends [of "initialDashboard\<lparr>newOrgName := '' Org 2 ''\<rparr>" "''id-1''"]
    h1 h2
  show ?thesis by (simp add: e1 e2 e3 isSpace_def)
qed

text \<open>
  C10: \<^verbatim>\<open>updateOrganization\<close> keeps the length and the order of the organization
  sequence; the organization at each position is the old one, spread with the updates
  when its identity is the given one and untouched otherwise. The orderers and the
  network-level fields are unchanged.
\<close>

theorem updateOrganization_frame:
  "length (organizations (config (updateOrganization orgId updates s)))
     = length (organizations (config s))
   \<and> (\<forall>i < length (organizations (config s)).
        organizations (config (updateOrganization orgId updates s)) ! i =
          (if org_id (organizations (config s) ! i) = orgId
           then spread (organizations (config s) ! i) updates
           else organizations (config s) ! i))
   \<and> orderers (config (updateOrganization orgId updates s)) = orderers (config s)
   \<and> channelName (config (updateOrganization orgId updates s)) = channelName (config s)
   \<and> consortium (config (updateOrganization orgId updates s)) = consortium (config s)
   \<and> networkVersion (config (updateOrganization orgId updates s)) = networkVersion (config s)
   \<and> stateDatabase (config (updateOrganization orgId updates s)) = stateDatabase (config s)
   \<and> template (config (updateOrganization orgId updates s)) = template (config s)"
  by (simp add: updateOrganization_def showNotification_def)

theorem updateOrganization_frame_witness:
  "(1::nat) < length (organizations (config twoOrgs))
   \<and> org_id (organizations (config twoOrgs) ! 1) \<noteq> ''id-1''
   \<and> organizations (config (updateOrganization ''id-1'' renameUpdate twoOrgs)) ! 1
       = organizations (config twoOrgs) ! 1
   \<and> org_name (organizations (config (updateOrganization ''id-1'' renameUpdate twoOrgs)) ! 0)
       = ''Acme''
   \<and> length (organizations (config (updateOrganization ''id-1'' renameUpdate twoOrgs))) = 2"
proof -
  have l: "length (organizations (config twoOrgs)) = 2"
    by (simp add: twoOrgs_config)
  have i1: "org_id (organizations (config twoOrgs) ! 1) = ''id-2''"
    by (simp add: twoOrgs_config)
  have i0: "org_id (organizations (config twoOrgs) ! 0) = ''id-1''"
    by (simp add: twoOrgs_config)
  from updateOrganization_frame [of "''id-1''" renameUpdate twoOrgs] l i0 i1
  show ?thesis by (simp add: spread_def renameUpdate_def)
qed

end
